theory Spec2Isabelle
  imports Main
begin

section \<open>Tensors\<close>

text \<open>
  The encoder of \<^verbatim>\<open>model/encoder.py\<close> works on PyTorch tensors. A tensor is modelled by
  what the claims speak about: its shape, its numeric type, the device that holds it, and
  its elements, read by a multi-index. The element type is a parameter: the floating
  point arithmetic of the layers is not part of the model.
\<close>

datatype error =
    ValueError string
  | AttributeError
  | TypeError
  | IndexError
  | RuntimeError
  | ExternalError

datatype dtype = Float16 | Float32 | Float64

datatype device = CPU | CUDA

record 'a tensor =
  shape :: "nat list"
  dtype :: dtype
  device :: device
  elems :: "nat list \<Rightarrow> 'a"

text \<open>Sequencing of fallible steps: the first exception ends the call.\<close>

definition and_then :: "error + 'b \<Rightarrow> ('b \<Rightarrow> error + 'c) \<Rightarrow> error + 'c" where
  "and_then r f = (case r of Inl e \<Rightarrow> Inl e | Inr x \<Rightarrow> f x)"

text \<open>Type promotion of \<^verbatim>\<open>torch.cat\<close> on floating types: the wider type wins.\<close>

fun dtype_rank :: "dtype \<Rightarrow> nat" where
  "dtype_rank Float16 = 0"
| "dtype_rank Float32 = 1"
| "dtype_rank Float64 = 2"

definition promote :: "dtype \<Rightarrow> dtype \<Rightarrow> dtype" where
  "promote a b = (if dtype_rank a \<le> dtype_rank b then b else a)"

text \<open>Row-major position of a multi-index in a shape, and back.\<close>

fun ravel :: "nat list \<Rightarrow> nat list \<Rightarrow> nat" where
  "ravel [] idx = 0"
| "ravel (d # ds) [] = 0"
| "ravel (d # ds) (i # idx) = i * prod_list ds + ravel ds idx"

fun unravel :: "nat list \<Rightarrow> nat \<Rightarrow> nat list" where
  "unravel [] k = []"
| "unravel (d # ds) k = (k div prod_list ds) # unravel ds (k mod prod_list ds)"

text \<open>
  \<^verbatim>\<open>t.reshape(sh)\<close>: the elements in row-major order, under a new shape with the same
  number of elements; a RuntimeError otherwise.
\<close>

definition reshape :: "'a tensor \<Rightarrow> nat list \<Rightarrow> error + 'a tensor" where
  "reshape t sh =
     (if prod_list sh = prod_list (shape t)
      then Inr (t\<lparr>shape := sh, elems := (\<lambda>idx. elems t (unravel (shape t) (ravel sh idx)))\<rparr>)
      else Inl RuntimeError)"

text \<open>\<^verbatim>\<open>t.unsqueeze(-1)\<close>: a new last axis of size 1.\<close>

definition unsqueeze_last :: "'a tensor \<Rightarrow> 'a tensor" where
  "unsqueeze_last t = t\<lparr>shape := shape t @ [1], elems := (\<lambda>idx. elems t (butlast idx))\<rparr>"

text \<open>
  \<^verbatim>\<open>t.expand(-1, -1, H, W)\<close>: four sizes are given and the first two are kept
  (\<^verbatim>\<open>-1\<close>), so the tensor must have exactly four axes (a \<^verbatim>\<open>-1\<close> is refused for an
  axis the tensor does not have, and more axes than sizes are refused); an axis of size 1
  is repeated, any other axis must already have the requested size.
\<close>

definition expand4 :: "'a tensor \<Rightarrow> nat \<Rightarrow> nat \<Rightarrow> error + 'a tensor" where
  "expand4 t H W =
     (case shape t of
        [a, b, c, d] \<Rightarrow>
          if (c = 1 \<or> c = H) \<and> (d = 1 \<or> d = W)
          then Inr (t\<lparr>shape := [a, b, H, W],
                      elems := (\<lambda>idx. case idx of
                          [i, j, k, l] \<Rightarrow> elems t [i, j, if c = 1 then 0 else k, if d = 1 then 0 else l]
                        | _ \<Rightarrow> elems t idx)\<rparr>)
          else Inl RuntimeError
      | _ \<Rightarrow> Inl RuntimeError)"

text \<open>
  \<^verbatim>\<open>message.unsqueeze(-1).unsqueeze(-1).expand(-1, -1, self.H, self.W)\<close>, the expression
  of lines 64, 80 and 94.
\<close>

definition expand_message :: "'a tensor \<Rightarrow> nat \<Rightarrow> nat \<Rightarrow> error + 'a tensor" where
  "expand_message message H W = expand4 (unsqueeze_last (unsqueeze_last message)) H W"

text \<open>
  \<^verbatim>\<open>torch.cat([s, t], dim=1)\<close>: both tensors have the same number of axes (at least two),
  agree on every axis but axis 1 and live on one device; the numeric type is promoted.
  (The one-dimensional empty tensor that \<^verbatim>\<open>torch.cat\<close> skips does not occur: the message
  and the semantic representation always have four axes, and the theorems take a four-axis
  image.)
\<close>

definition cat_pair :: "'a tensor \<Rightarrow> 'a tensor \<Rightarrow> error + 'a tensor" where
  "cat_pair s t =
     (if 2 \<le> length (shape s) \<and> length (shape s) = length (shape t)
         \<and> hd (shape s) = hd (shape t) \<and> drop 2 (shape s) = drop 2 (shape t)
         \<and> device s = device t
      then Inr \<lparr>shape = hd (shape s) # (shape s ! 1 + shape t ! 1) # drop 2 (shape s),
                dtype = promote (dtype s) (dtype t),
                device = device s,
                elems = (\<lambda>idx. if idx ! 1 < shape s ! 1 then elems s idx
                               else elems t (idx[1 := idx ! 1 - shape s ! 1]))\<rparr>
      else Inl RuntimeError)"

fun cat_dim1 :: "'a tensor list \<Rightarrow> error + 'a tensor" where
  "cat_dim1 [] = Inl RuntimeError"
| "cat_dim1 [t] = (if 2 \<le> length (shape t) then Inr t else Inl IndexError)"
| "cat_dim1 (t # ts) = and_then (cat_dim1 ts) (cat_pair t)"

text \<open>
  \<^verbatim>\<open>a[:, :, 0, 1:]\<close>: on the third axis the entry 0 (the class token's row), on the fourth
  axis everything but entry 0 (the class token's attention to itself).
\<close>

definition cls_to_patch :: "'a tensor \<Rightarrow> error + 'a tensor" where
  "cls_to_patch a =
     (case shape a of
        b # h # q # k # rest \<Rightarrow>
          if q = 0 then Inl IndexError
          else Inr (a\<lparr>shape := b # h # (k - 1) # rest,
                      elems := (\<lambda>idx. elems a (take 2 idx @ [0, Suc (idx ! 2)] @ drop 3 idx))\<rparr>)
      | _ \<Rightarrow> Inl IndexError)"

text \<open>
  \<^verbatim>\<open>nn.functional.interpolate(t, n)\<close> in its default mode (nearest neighbour), on the
  four-axis tensor the source gives it: both spatial axes get size \<open>n\<close>, and the target
  position \<open>y\<close> reads the source position \<open>min (\<lfloor>y * h / n\<rfloor>) (h - 1)\<close>.
\<close>

definition interpolate :: "'a tensor \<Rightarrow> nat \<Rightarrow> error + 'a tensor" where
  "interpolate t n =
     (case shape t of
        [b, c, h, w] \<Rightarrow>
          if 0 < c \<and> 0 < h \<and> 0 < w \<and> 0 < n
          then Inr (t\<lparr>shape := [b, c, n, n],
                      elems := (\<lambda>idx. case idx of
                          [i, j, y, x] \<Rightarrow>
                            elems t [i, j, min ((y * h) div n) (h - 1), min ((x * w) div n) (w - 1)]
                        | _ \<Rightarrow> elems t idx)\<rparr>)
          else Inl RuntimeError
      | _ \<Rightarrow> Inl RuntimeError)"

text \<open>
  \<^verbatim>\<open>[x.squeeze(0) for x in torch.split(image.cpu(), 1)]\<close>: the images of the batch, one by
  one, on the CPU.
\<close>

definition image_list_of :: "'a tensor \<Rightarrow> error + 'a tensor list" where
  "image_list_of img =
     (case shape img of
        [] \<Rightarrow> Inl RuntimeError
      | B # rest \<Rightarrow>
          Inr (if B = 0 then [img\<lparr>device := CPU\<rparr>]
               else map (\<lambda>b. img\<lparr>shape := rest, device := CPU,
                                  elems := (\<lambda>idx. elems img (b # idx))\<rparr>) [0..<B]))"

section \<open>Layers\<close>

text \<open>
  A layer with weights: what it is, its input and output width, where its weights live,
  and the numbers it computes (\<open>l_fn\<close>, standing for the weights: the layer's output
  elements as a function of its input).
\<close>

datatype layer_kind = K_ConvBNRelu | K_Conv2d nat | K_Linear

record 'a layer =
  kind :: layer_kind
  l_in :: nat
  l_out :: nat
  l_dtype :: dtype
  l_device :: device
  l_fn :: "'a tensor \<Rightarrow> nat list \<Rightarrow> 'a"

text \<open>New layers hold 32-bit floats on the CPU, as PyTorch creates them.\<close>

definition ConvBNRelu :: "nat \<Rightarrow> nat \<Rightarrow> ('a tensor \<Rightarrow> nat list \<Rightarrow> 'a) \<Rightarrow> 'a layer" where
  "ConvBNRelu channels_in channels_out w =
     \<lparr>kind = K_ConvBNRelu, l_in = channels_in, l_out = channels_out,
      l_dtype = Float32, l_device = CPU, l_fn = w\<rparr>"

definition Conv2d :: "nat \<Rightarrow> nat \<Rightarrow> nat \<Rightarrow> ('a tensor \<Rightarrow> nat list \<Rightarrow> 'a) \<Rightarrow> 'a layer" where
  "Conv2d in_channels out_channels kernel_size w =
     \<lparr>kind = K_Conv2d kernel_size, l_in = in_channels, l_out = out_channels,
      l_dtype = Float32, l_device = CPU, l_fn = w\<rparr>"

definition Linear :: "nat \<Rightarrow> nat \<Rightarrow> ('a tensor \<Rightarrow> nat list \<Rightarrow> 'a) \<Rightarrow> 'a layer" where
  "Linear in_features out_features w =
     \<lparr>kind = K_Linear, l_in = in_features, l_out = out_features,
      l_dtype = Float32, l_device = CPU, l_fn = w\<rparr>"

text \<open>A layer refuses an input of another numeric type or on another device than its weights.\<close>

definition placed_for :: "'a layer \<Rightarrow> 'a tensor \<Rightarrow> bool" where
  "placed_for l x = (dtype x = l_dtype l \<and> device x = l_device l)"

text \<open>
  Modelled from the spec: \<^verbatim>\<open>model/conv_bn_relu.py\<close> (class \<^verbatim>\<open>ConvBNRelu\<close>) is not among
  the sources. The spec describes it as one convolution + normalization + activation block
  mapping a channel count to another, with the spatial size of its input kept: an input
  \<open>(B, channels_in, h, w)\<close> gives \<open>(B, channels_out, h, w)\<close>, any other input is refused.
\<close>

definition ConvBNRelu_forward :: "'a layer \<Rightarrow> 'a tensor \<Rightarrow> error + 'a tensor" where
  "ConvBNRelu_forward l x =
     (if \<not> placed_for l x then Inl RuntimeError
      else case shape x of
        [b, c, h, w] \<Rightarrow>
          if c = l_in l then Inr (x\<lparr>shape := [b, l_out l, h, w], elems := l_fn l x\<rparr>)
          else Inl RuntimeError
      | _ \<Rightarrow> Inl RuntimeError)"

text \<open>\<^verbatim>\<open>nn.Sequential(*layers)\<close>: the blocks one after the other.\<close>

fun Sequential_forward :: "'a layer list \<Rightarrow> 'a tensor \<Rightarrow> error + 'a tensor" where
  "Sequential_forward [] x = Inr x"
| "Sequential_forward (l # ls) x = and_then (ConvBNRelu_forward l x) (Sequential_forward ls)"

text \<open>
  \<^verbatim>\<open>nn.Conv2d(in_channels, out_channels, kernel_size)\<close>, stride 1 and no padding, on the
  four-axis input the source gives it: a kernel of size \<open>k\<close> takes \<open>k - 1\<close> off each
  spatial axis.
\<close>

definition Conv2d_forward :: "'a layer \<Rightarrow> 'a tensor \<Rightarrow> error + 'a tensor" where
  "Conv2d_forward l x =
     (if \<not> placed_for l x then Inl RuntimeError
      else case (kind l, shape x) of
        (K_Conv2d k, [b, c, h, w]) \<Rightarrow>
          if c = l_in l \<and> 0 < k \<and> k \<le> h \<and> k \<le> w
          then Inr (x\<lparr>shape := [b, l_out l, h + 1 - k, w + 1 - k], elems := l_fn l x\<rparr>)
          else Inl RuntimeError
      | _ \<Rightarrow> Inl RuntimeError)"

text \<open>\<^verbatim>\<open>nn.Linear(in_features, out_features)\<close>: acts on the last axis.\<close>

definition Linear_forward :: "'a layer \<Rightarrow> 'a tensor \<Rightarrow> error + 'a tensor" where
  "Linear_forward l x =
     (if \<not> placed_for l x then Inl RuntimeError
      else if shape x \<noteq> [] \<and> last (shape x) = l_in l
      then Inr (x\<lparr>shape := butlast (shape x) @ [l_out l], elems := l_fn l x\<rparr>)
      else Inl RuntimeError)"

section \<open>Configuration and construction\<close>

text \<open>
  \<^verbatim>\<open>HiDDenConfiguration\<close> (module \<^verbatim>\<open>options\<close>) as the encoder reads it. The selector is read
  with \<^verbatim>\<open>getattr(config, "encoder_mode", None)\<close>: \<open>None\<close> stands for a missing attribute
  as well as for the value \<^verbatim>\<open>None\<close>. The block counts are Python integers, on which the
  source computes; sizes and widths are natural numbers.
\<close>

record HiDDenConfiguration =
  cfg_H :: nat
  cfg_W :: nat
  encoder_channels :: nat
  encoder_blocks :: int
  message_length :: nat
  cfg_encoder_loss :: string
  cfg_encoder_mode :: "string option"
  decoder_blocks :: int

text \<open>
  The networks of \<^verbatim>\<open>vit_pytorch\<close> and \<^verbatim>\<open>transformers\<close> are libraries outside the
  repository. The model records the arguments the source passes to them and takes what
  they compute as a parameter.
\<close>

record vit_args =
  image_size :: "nat \<times> nat"
  patch_size :: nat
  num_classes :: nat
  dim :: nat
  depth :: int
  heads :: nat
  mlp_dim :: nat
  dropout :: "nat \<times> nat"
  emb_dropout :: "nat \<times> nat"

record 'a ViT =
  vit_args :: vit_args
  vit_fn :: "'a tensor \<Rightarrow> error + 'a tensor"

record 'a ViTFeatureExtractor =
  fe_name :: string
  fe_fn :: "'a tensor list \<Rightarrow> error + 'a tensor"

record 'a model_outputs =
  pooler_output :: "'a tensor"
  attentions :: "'a tensor list option"

record 'a ViTModel =
  m_name :: string
  output_attentions :: bool
  m_fn :: "'a tensor \<Rightarrow> error + 'a model_outputs"

text \<open>
  What construction takes from outside: the initial weights of the layers it creates (as
  the functions they compute), and the library constructors, which may fail (a failed
  assertion, a checkpoint that cannot be fetched).
\<close>

record 'a env =
  w_trunk :: "nat \<Rightarrow> 'a tensor \<Rightarrow> nat list \<Rightarrow> 'a"
  w_final :: "'a tensor \<Rightarrow> nat list \<Rightarrow> 'a"
  w_after_concat :: "'a tensor \<Rightarrow> nat list \<Rightarrow> 'a"
  w_linear :: "'a tensor \<Rightarrow> nat list \<Rightarrow> 'a"
  lib_ViT :: "vit_args \<Rightarrow> error + ('a tensor \<Rightarrow> error + 'a tensor)"
  lib_feature_extractor :: "string \<Rightarrow> error + ('a tensor list \<Rightarrow> error + 'a tensor)"
  lib_ViTModel :: "string \<Rightarrow> bool \<Rightarrow> error + ('a tensor \<Rightarrow> error + 'a model_outputs)"

record 'a Encoder =
  enc_H :: nat
  enc_W :: nat
  conv_channels :: nat
  num_blocks :: int
  encoder_loss :: string
  encoder_mode :: string
  conv_layers :: "'a layer list"
  final_layer :: "'a layer"
  after_concat_layer :: "'a layer"
  vit :: "'a ViT option"
  feature_extractor :: "'a ViTFeatureExtractor option"
  model :: "'a ViTModel option"
  linear :: "'a layer option"

text \<open>
  Construction is followed by the list of the weight-carrying modules it has created so
  far, in order: an exception leaves the list as it stood when it was raised.
\<close>

datatype alloc =
    Alloc_layer layer_kind nat nat
  | Alloc_ViT vit_args
  | Alloc_feature_extractor string
  | Alloc_ViTModel string bool

definition alloc_of :: "'a layer \<Rightarrow> alloc" where
  "alloc_of l = Alloc_layer (kind l) (l_in l) (l_out l)"

definition missing_mode_message :: string where
  "missing_mode_message = ''encoder_mode is missing in HiDDenConfiguration. Please set it properly.''"

definition invalid_mode_message :: "string \<Rightarrow> string" where
  "invalid_mode_message mode =
     ''encoder_mode '' @ [CHR 0x27] @ mode @ [CHR 0x27]
       @ '' is not valid. Choose 'vit', 'dino-output', or 'dino-attention'.''"

text \<open>
  Lines 26 to 28: the first block, then one more block for each element of
  \<^verbatim>\<open>range(config.encoder_blocks - 1)\<close>, which is empty when the count is not positive.
\<close>

definition trunk :: "'a env \<Rightarrow> HiDDenConfiguration \<Rightarrow> 'a layer list" where
  "trunk env config =
     ConvBNRelu 3 (encoder_channels config) (w_trunk env 0)
       # map (\<lambda>i. ConvBNRelu (encoder_channels config) (encoder_channels config) (w_trunk env (Suc i)))
             [0..<nat (encoder_blocks config - 1)]"

definition dino_checkpoint :: string where
  "dino_checkpoint = ''facebook/dino-vits8''"

text \<open>The attributes every strategy sets (lines 15 to 31), with the fusion block of the strategy.\<close>

definition new_Encoder ::
  "HiDDenConfiguration \<Rightarrow> string \<Rightarrow> 'a layer list \<Rightarrow> 'a layer \<Rightarrow> 'a layer \<Rightarrow> 'a Encoder" where
  "new_Encoder config mode layers final after =
     \<lparr>enc_H = cfg_H config, enc_W = cfg_W config,
      conv_channels = encoder_channels config,
      num_blocks = encoder_blocks config,
      encoder_loss = cfg_encoder_loss config,
      encoder_mode = mode,
      conv_layers = layers, final_layer = final, after_concat_layer = after,
      vit = None, feature_extractor = None, model = None, linear = None\<rparr>"

definition vit_arguments :: "HiDDenConfiguration \<Rightarrow> vit_args" where
  "vit_arguments config =
     \<lparr>image_size = (cfg_H config, cfg_W config),
      patch_size = 32,
      num_classes = 128 * 128 * encoder_channels config,
      dim = 1024,
      depth = decoder_blocks config div 2,
      heads = 16,
      mlp_dim = 2048,
      dropout = (1, 10),
      emb_dropout = (1, 10)\<rparr>"

text \<open>
  \<^verbatim>\<open>Encoder.__init__\<close>. The mode of the pretrained model (\<^verbatim>\<open>self.model.eval()\<close>) is part
  of what the library computes and leaves no trace here.
\<close>

definition Encoder_init :: "'a env \<Rightarrow> HiDDenConfiguration \<Rightarrow> alloc list \<times> (error + 'a Encoder)" where
  "Encoder_init env config =
     (case cfg_encoder_mode config of
        None \<Rightarrow> ([], Inl (ValueError missing_mode_message))
      | Some mode \<Rightarrow>
          (let C = encoder_channels config;
               layers = trunk env config;
               final = Conv2d C 3 1 (w_final env);
               tr = map alloc_of layers @ [alloc_of final]
           in
             if mode = ''vit'' then
               (let after = ConvBNRelu (C + 3 + message_length config) C (w_after_concat env)
                in case lib_ViT env (vit_arguments config) of
                     Inl e \<Rightarrow> (tr @ [alloc_of after], Inl e)
                   | Inr f \<Rightarrow>
                       (tr @ [alloc_of after, Alloc_ViT (vit_arguments config)],
                        Inr ((new_Encoder config mode layers final after)
                               \<lparr>vit := Some \<lparr>vit_args = vit_arguments config, vit_fn = f\<rparr>\<rparr>)))
             else if mode = ''dino-output'' then
               (let after = ConvBNRelu (C + 3 + message_length config) C (w_after_concat env)
                in case lib_feature_extractor env dino_checkpoint of
                     Inl e \<Rightarrow> (tr @ [alloc_of after], Inl e)
                   | Inr fe \<Rightarrow>
                      (case lib_ViTModel env dino_checkpoint False of
                         Inl e \<Rightarrow> (tr @ [alloc_of after, Alloc_feature_extractor dino_checkpoint], Inl e)
                       | Inr m \<Rightarrow>
                          (let lin = Linear 384 (128 * 128 * C) (w_linear env)
                           in (tr @ [alloc_of after, Alloc_feature_extractor dino_checkpoint,
                                     Alloc_ViTModel dino_checkpoint False, alloc_of lin],
                               Inr ((new_Encoder config mode layers final after)
                                      \<lparr>feature_extractor := Some \<lparr>fe_name = dino_checkpoint, fe_fn = fe\<rparr>,
                                       model := Some \<lparr>m_name = dino_checkpoint,
                                                      output_attentions = False, m_fn = m\<rparr>,
                                       linear := Some lin\<rparr>)))))
             else if mode = ''dino-attention'' then
               (let after = ConvBNRelu 39 C (w_after_concat env)
                in case lib_feature_extractor env dino_checkpoint of
                     Inl e \<Rightarrow> (tr @ [alloc_of after], Inl e)
                   | Inr fe \<Rightarrow>
                      (case lib_ViTModel env dino_checkpoint True of
                         Inl e \<Rightarrow> (tr @ [alloc_of after, Alloc_feature_extractor dino_checkpoint], Inl e)
                       | Inr m \<Rightarrow>
                          (tr @ [alloc_of after, Alloc_feature_extractor dino_checkpoint,
                                 Alloc_ViTModel dino_checkpoint True],
                           Inr ((new_Encoder config mode layers final after)
                                  \<lparr>feature_extractor := Some \<lparr>fe_name = dino_checkpoint, fe_fn = fe\<rparr>,
                                   model := Some \<lparr>m_name = dino_checkpoint,
                                                  output_attentions = True, m_fn = m\<rparr>\<rparr>))))
             else (tr, Inl (ValueError (invalid_mode_message mode)))))"

text \<open>
  \<^verbatim>\<open>nn.Module.to\<close>, by which the caller places the encoder's weights. The library
  networks are parameters: their placement is part of what they compute.
\<close>

definition layer_to :: "device \<Rightarrow> dtype \<Rightarrow> 'a layer \<Rightarrow> 'a layer" where
  "layer_to dev dt l = l\<lparr>l_dtype := dt, l_device := dev\<rparr>"

definition Encoder_to :: "device \<Rightarrow> dtype \<Rightarrow> 'a Encoder \<Rightarrow> 'a Encoder" where
  "Encoder_to dev dt enc =
     enc\<lparr>conv_layers := map (layer_to dev dt) (conv_layers enc),
         final_layer := layer_to dev dt (final_layer enc),
         after_concat_layer := layer_to dev dt (after_concat_layer enc),
         linear := map_option (layer_to dev dt) (linear enc)\<rparr>"

section \<open>The forward passes\<close>

text \<open>An attribute that construction did not set raises an AttributeError when read.\<close>

definition attribute :: "'b option \<Rightarrow> error + 'b" where
  "attribute a = (case a of None \<Rightarrow> Inl AttributeError | Some x \<Rightarrow> Inr x)"

text \<open>\<^verbatim>\<open>image.shape[0]\<close>.\<close>

definition shape0 :: "'a tensor \<Rightarrow> error + nat" where
  "shape0 t = (case shape t of [] \<Rightarrow> Inl IndexError | B # rest \<Rightarrow> Inr B)"

text \<open>
  Lines 68 and 69 (the same as 82, 83 and 96, 97): the fusion block, then the final
  convolution.
\<close>

definition fusion :: "'a Encoder \<Rightarrow> 'a tensor \<Rightarrow> error + 'a tensor" where
  "fusion enc concat_t =
     and_then (ConvBNRelu_forward (after_concat_layer enc) concat_t) (\<lambda>im_w.
     Conv2d_forward (final_layer enc) im_w)"

text \<open>Lines 62 and 63: the semantic representation of strategy \<^verbatim>\<open>vit\<close>.\<close>

definition vit_semantic :: "'a Encoder \<Rightarrow> 'a tensor \<Rightarrow> error + 'a tensor" where
  "vit_semantic enc img =
     and_then (attribute (vit enc)) (\<lambda>v.
     and_then (vit_fn v img) (\<lambda>semantic_representation.
     and_then (shape0 img) (\<lambda>B.
     reshape semantic_representation [B, conv_channels enc, 128, 128])))"

text \<open>Lines 62 to 67: everything up to the concatenation, in the order of the source.\<close>

definition concat_vit :: "'a Encoder \<Rightarrow> 'a tensor \<Rightarrow> 'a tensor \<Rightarrow> error + 'a tensor" where
  "concat_vit enc img message =
     and_then (vit_semantic enc img) (\<lambda>semantic_representation.
     and_then (expand_message message (enc_H enc) (enc_W enc)) (\<lambda>expanded_message.
     and_then (Sequential_forward (conv_layers enc) img) (\<lambda>encoded_image.
     cat_dim1 [expanded_message, semantic_representation, img])))"

definition forward_vit :: "'a Encoder \<Rightarrow> 'a tensor \<Rightarrow> 'a tensor \<Rightarrow> error + 'a tensor" where
  "forward_vit enc img message = and_then (concat_vit enc img message) (fusion enc)"

text \<open>
  Lines 73 to 75 (the same as 87 to 89): the images one by one through the preprocessor,
  the result moved to the device \<^verbatim>\<open>'cuda'\<close>, then the pretrained model.
\<close>

definition dino_outputs :: "'a Encoder \<Rightarrow> 'a tensor \<Rightarrow> error + 'a model_outputs" where
  "dino_outputs enc img =
     and_then (image_list_of img) (\<lambda>image_list.
     and_then (attribute (feature_extractor enc)) (\<lambda>fe.
     and_then (fe_fn fe image_list) (\<lambda>inputs.
     and_then (attribute (model enc)) (\<lambda>m.
     m_fn m (inputs\<lparr>device := CUDA\<rparr>)))))"

text \<open>Lines 73 to 78: the semantic representation of strategy \<^verbatim>\<open>dino-output\<close>.\<close>

definition dino_output_semantic :: "'a Encoder \<Rightarrow> 'a tensor \<Rightarrow> error + 'a tensor" where
  "dino_output_semantic enc img =
     and_then (dino_outputs enc img) (\<lambda>outputs.
     and_then (attribute (linear enc)) (\<lambda>lin.
     and_then (Linear_forward lin (pooler_output outputs)) (\<lambda>semantic_representation.
     and_then (shape0 img) (\<lambda>B.
     reshape semantic_representation [B, conv_channels enc, 128, 128]))))"

definition concat_dino_output :: "'a Encoder \<Rightarrow> 'a tensor \<Rightarrow> 'a tensor \<Rightarrow> error + 'a tensor" where
  "concat_dino_output enc img message =
     and_then (dino_output_semantic enc img) (\<lambda>semantic_representation.
     and_then (expand_message message (enc_H enc) (enc_W enc)) (\<lambda>expanded_message.
     cat_dim1 [expanded_message, semantic_representation, img]))"

definition forward_dino_output :: "'a Encoder \<Rightarrow> 'a tensor \<Rightarrow> 'a tensor \<Rightarrow> error + 'a tensor" where
  "forward_dino_output enc img message = and_then (concat_dino_output enc img message) (fusion enc)"

text \<open>
  Lines 90 to 92: \<^verbatim>\<open>outputs.attentions[-1][:, :, 0, 1:]\<close>, reshaped to a grid of side 28 for
  each head and interpolated to side 128.
\<close>

definition attention_map :: "'a model_outputs \<Rightarrow> error + 'a tensor" where
  "attention_map outputs =
     (case attentions outputs of
        None \<Rightarrow> Inl TypeError
      | Some atts \<Rightarrow>
          if atts = [] then Inl IndexError
          else
            and_then (cls_to_patch (last atts)) (\<lambda>attention.
            and_then (reshape attention [shape attention ! 0, shape attention ! 1, 28, 28]) (\<lambda>attention.
            interpolate attention 128)))"

definition dino_attention_semantic :: "'a Encoder \<Rightarrow> 'a tensor \<Rightarrow> error + 'a tensor" where
  "dino_attention_semantic enc img = and_then (dino_outputs enc img) attention_map"

definition concat_dino_attention :: "'a Encoder \<Rightarrow> 'a tensor \<Rightarrow> 'a tensor \<Rightarrow> error + 'a tensor" where
  "concat_dino_attention enc img message =
     and_then (dino_attention_semantic enc img) (\<lambda>attention.
     and_then (expand_message message (enc_H enc) (enc_W enc)) (\<lambda>expanded_message.
     cat_dim1 [expanded_message, attention, img]))"

definition forward_dino_attention :: "'a Encoder \<Rightarrow> 'a tensor \<Rightarrow> 'a tensor \<Rightarrow> error + 'a tensor" where
  "forward_dino_attention enc img message =
     and_then (concat_dino_attention enc img message) (fusion enc)"

text \<open>\<^verbatim>\<open>Encoder.forward\<close>: dispatch on the stored selector.\<close>

definition forward :: "'a Encoder \<Rightarrow> 'a tensor \<Rightarrow> 'a tensor \<Rightarrow> error + 'a tensor" where
  "forward enc img message =
     (if encoder_mode enc = ''vit'' then forward_vit enc img message
      else if encoder_mode enc = ''dino-output'' then forward_dino_output enc img message
      else if encoder_mode enc = ''dino-attention'' then forward_dino_attention enc img message
      else Inl (ValueError (invalid_mode_message (encoder_mode enc))))"

text \<open>The semantic representation of the stored strategy, for statements about all three.\<close>

definition semantic_representation_of :: "'a Encoder \<Rightarrow> 'a tensor \<Rightarrow> error + 'a tensor" where
  "semantic_representation_of enc img =
     (if encoder_mode enc = ''vit'' then vit_semantic enc img
      else if encoder_mode enc = ''dino-output'' then dino_output_semantic enc img
      else if encoder_mode enc = ''dino-attention'' then dino_attention_semantic enc img
      else Inl (ValueError (invalid_mode_message (encoder_mode enc))))"


text \<open>
  The layers of a trunk without their weights: two trunks with the same architecture
  differ in the setting of their weights only.
\<close>

definition layer_arch :: "'a layer \<Rightarrow> layer_kind \<times> nat \<times> nat \<times> dtype \<times> device" where
  "layer_arch l = (kind l, l_in l, l_out l, l_dtype l, l_device l)"

section \<open>Concrete inputs\<close>

text \<open>
  A small world to run the model in: layers whose outputs are all zero, a vision
  transformer that returns one vector of \<open>num_classes\<close> numbers for each image, a
  preprocessor that returns images of side 224, and a pretrained model of width 384 with
  6 heads over 1 + 28 * 28 tokens, as the checkpoint \<^verbatim>\<open>facebook/dino-vits8\<close> has them.
\<close>

definition example_env :: "nat env" where
  "example_env =
     \<lparr>w_trunk = (\<lambda>i x idx. 0),
      w_final = (\<lambda>x idx. 0),
      w_after_concat = (\<lambda>x idx. 0),
      w_linear = (\<lambda>x idx. 0),
      lib_ViT = (\<lambda>args. Inr (\<lambda>x.
         Inr (x\<lparr>shape := [hd (shape x), num_classes args], elems := (\<lambda>idx. 0)\<rparr>))),
      lib_feature_extractor = (\<lambda>name. Inr (\<lambda>xs.
         Inr \<lparr>shape = [length xs, 3, 224, 224], dtype = Float32, device = CPU,
              elems = (\<lambda>idx. 0)\<rparr>)),
      lib_ViTModel = (\<lambda>name att. Inr (\<lambda>x.
         Inr \<lparr>pooler_output = x\<lparr>shape := [hd (shape x), 384], elems := (\<lambda>idx. 0)\<rparr>,
              attentions =
                (if att
                 then Some [x\<lparr>shape := [hd (shape x), 6, 785, 785],
                              elems := (\<lambda>idx. 1000 * idx ! 2 + idx ! 3)\<rparr>]
                 else None)\<rparr>))\<rparr>"

definition example_config :: "string option \<Rightarrow> nat \<Rightarrow> int \<Rightarrow> nat \<Rightarrow> HiDDenConfiguration" where
  "example_config mode side blocks len =
     \<lparr>cfg_H = side, cfg_W = side, encoder_channels = 4, encoder_blocks = blocks,
      message_length = len, cfg_encoder_loss = ''mse'', cfg_encoder_mode = mode,
      decoder_blocks = 7\<rparr>"

definition example_image :: "device \<Rightarrow> nat \<Rightarrow> nat tensor" where
  "example_image dev side =
     \<lparr>shape = [2, 3, side, side], dtype = Float32, device = dev,
      elems = (\<lambda>idx. idx ! 2 + idx ! 3)\<rparr>"

definition example_message :: "device \<Rightarrow> nat \<Rightarrow> nat tensor" where
  "example_message dev len =
     \<lparr>shape = [2, len], dtype = Float32, device = dev,
      elems = (\<lambda>idx. 10 * idx ! 0 + idx ! 1 + 5)\<rparr>"

section \<open>Auxiliary facts\<close>

lemma and_then_Inl [simp]: "and_then (Inl e) f = Inl e"
  by (simp add: and_then_def)

lemma and_then_Inr [simp]: "and_then (Inr x) f = f x"
  by (simp add: and_then_def)

lemma and_then_eq_Inr: "and_then r f = Inr y \<longleftrightarrow> (\<exists>x. r = Inr x \<and> f x = Inr y)"
  by (cases r) simp_all

lemma div_mod_block:
  fixes a r m :: nat
  assumes "r < m"
  shows "(a * m + r) div m = a" and "(a * m + r) mod m = r"
  using assms by simp_all

text \<open>Reading a grid of side 28 at row \<open>i\<close>, column \<open>j\<close> reads position \<open>28 * i + j\<close> of the row it was made from.\<close>

lemma unravel_ravel_grid:
  assumes "h < nh" "i < 28" "j < 28"
  shows "unravel [B, nh, 784] (ravel [B, nh, 28, 28] [b, h, i, j]) = [b, h, 28 * i + j]"
proof -
  let ?r = "h * 784 + (i * 28 + j)"
  have ij: "i * 28 + j < 784" using assms by simp
  have r: "?r < nh * 784"
  proof -
    have "Suc h \<le> nh" using assms by simp
    then have "Suc h * 784 \<le> nh * 784" by (rule mult_le_mono1)
    with ij show ?thesis by simp
  qed
  have k: "ravel [B, nh, 28, 28] [b, h, i, j] = b * (nh * 784) + ?r" by simp
  have d1: "(b * (nh * 784) + ?r) div (nh * 784) = b" using r by (rule div_mod_block(1))
  have m1: "(b * (nh * 784) + ?r) mod (nh * 784) = ?r" using r by (rule div_mod_block(2))
  have d2: "?r div 784 = h" using ij by (rule div_mod_block(1))
  have m2: "?r mod 784 = i * 28 + j" using ij by (rule div_mod_block(2))
  show ?thesis
    unfolding k
    by (simp only: unravel.simps prod_list.Cons prod_list.Nil mult_1_right d1 m1 d2 m2 div_by_1)
       (simp add: mult.commute)
qed

section \<open>The message broadcast\<close>

text \<open>
  Claim C8. For a message of shape \<open>(B, L)\<close>, the broadcast message has shape
  \<open>(B, L, H, W)\<close>, the numeric type and device of the message, and at every spatial
  location \<open>(h, w)\<close> the entry \<open>c\<close> of batch item \<open>b\<close> is the entry \<open>c\<close> of the
  original message vector of \<open>b\<close>.
\<close>

theorem expand_message_broadcast:
  assumes "shape message = [B, L]"
  shows "\<exists>m. expand_message message H W = Inr m \<and> shape m = [B, L, H, W]
           \<and> dtype m = dtype message \<and> device m = device message
           \<and> (\<forall>b<B. \<forall>c<L. \<forall>h<H. \<forall>w<W. elems m [b, c, h, w] = elems message [b, c])"
  using assms by (simp add: expand_message_def expand4_def unsqueeze_last_def)

theorem expand_message_broadcast_witness:
  "shape (example_message CPU 2) = [2, 2] \<and>
   (\<exists>m. expand_message (example_message CPU 2) 2 3 = Inr m \<and> shape m = [2, 2, 2, 3]
        \<and> elems m [1, 0, 0, 0] = 15 \<and> elems m [1, 0, 1, 2] = 15 \<and> elems m [1, 1, 1, 2] = 16)"
proof -
  have sh: "shape (example_message CPU 2) = [2, 2]"
    by (simp add: example_message_def)
  from expand_message_broadcast [OF sh, of 2 3]
  obtain m where m: "expand_message (example_message CPU 2) 2 3 = Inr m" "shape m = [2, 2, 2, 3]"
    and e: "\<forall>b<2. \<forall>c<2. \<forall>h<2. \<forall>w<3. elems m [b, c, h, w] = elems (example_message CPU 2) [b, c]"
    by blast
  from e have "elems m [1, 0, 0, 0] = elems (example_message CPU 2) [1, 0]"
    and "elems m [1, 0, 1, 2] = elems (example_message CPU 2) [1, 0]"
    and "elems m [1, 1, 1, 2] = elems (example_message CPU 2) [1, 1]"
    by simp_all
  then have "elems m [1, 0, 0, 0] = 15" "elems m [1, 0, 1, 2] = 15" "elems m [1, 1, 1, 2] = 16"
    by (simp_all add: example_message_def)
  with sh m show ?thesis by blast
qed

section \<open>The attention grid\<close>

text \<open>
  Lines 90 to 92 on a last attention tensor of shape \<open>(B, nh, q, 785)\<close>: the entry
  \<open>(y, x)\<close> of head \<open>h\<close> is the entry \<open>1 + 28 * (28 * y div 128) + 28 * x div 128\<close> of the
  class token's row of that head.
\<close>

lemma attention_map_grid:
  assumes atts: "attentions outputs = Some atts" "atts \<noteq> []"
    and sh: "shape (last atts) = [B, nh, q, 785]" and pos: "0 < q" "0 < nh"
  shows "\<exists>a. attention_map outputs = Inr a \<and> shape a = [B, nh, 128, 128]
           \<and> (\<forall>b<B. \<forall>h<nh. \<forall>y<128. \<forall>x<128.
                 elems a [b, h, y, x]
                   = elems (last atts) [b, h, 0, Suc (28 * ((y * 28) div 128) + (x * 28) div 128)])"
proof -
  define a1 where "a1 = (last atts)\<lparr>shape := [B, nh, 784],
     elems := (\<lambda>idx. elems (last atts) (take 2 idx @ [0, Suc (idx ! 2)] @ drop 3 idx))\<rparr>"
  have c: "cls_to_patch (last atts) = Inr a1"
    using sh pos by (simp add: cls_to_patch_def a1_def)
  define a2 where "a2 = a1\<lparr>shape := [B, nh, 28, 28],
     elems := (\<lambda>idx. elems a1 (unravel (shape a1) (ravel [B, nh, 28, 28] idx)))\<rparr>"
  have r: "reshape a1 [shape a1 ! 0, shape a1 ! 1, 28, 28] = Inr a2"
    by (simp add: reshape_def a1_def a2_def)
  obtain a3 where i: "interpolate a2 128 = Inr a3" and s3: "shape a3 = [B, nh, 128, 128]"
    and e3: "\<And>b h y x. elems a3 [b, h, y, x]
               = elems a2 [b, h, min ((y * 28) div 128) 27, min ((x * 28) div 128) 27]"
    using pos by (simp add: interpolate_def a2_def)
  have m: "attention_map outputs = Inr a3"
    using atts c r i by (simp add: attention_map_def)
  have "elems a3 [b, h, y, x]
          = elems (last atts) [b, h, 0, Suc (28 * ((y * 28) div 128) + (x * 28) div 128)]"
    if "h < nh" "y < 128" "x < 128" for b h y x
  proof -
    have y: "(y * 28) div 128 < 28" and x: "(x * 28) div 128 < 28" using that by simp_all
    have "elems a3 [b, h, y, x] = elems a2 [b, h, (y * 28) div 128, (x * 28) div 128]"
      using y x by (simp add: e3)
    also have "\<dots> = elems a1 [b, h, 28 * ((y * 28) div 128) + (x * 28) div 128]"
      using unravel_ravel_grid [OF that(1) y x, of B b] by (simp add: a2_def a1_def)
    also have "\<dots> = elems (last atts) [b, h, 0, Suc (28 * ((y * 28) div 128) + (x * 28) div 128)]"
      by (simp add: a1_def)
    finally show ?thesis .
  qed
  with m s3 show ?thesis by blast
qed

section \<open>Facts about construction\<close>

lemma alloc_trunk:
  "map alloc_of (trunk env config) =
     Alloc_layer K_ConvBNRelu 3 (encoder_channels config)
       # replicate (nat (encoder_blocks config - 1))
           (Alloc_layer K_ConvBNRelu (encoder_channels config) (encoder_channels config))"
  by (simp add: trunk_def alloc_of_def ConvBNRelu_def comp_def map_replicate_const)

lemma length_trunk: "int (length (trunk env config)) = max 1 (encoder_blocks config)"
  by (simp add: trunk_def)

lemma init_trace_prefix:
  assumes "cfg_encoder_mode config = Some mode"
  shows "\<exists>rest. fst (Encoder_init env config) =
            (map alloc_of (trunk env config)
               @ [alloc_of (Conv2d (encoder_channels config) 3 1 (w_final env))]) @ rest"
proof -
  let ?tr = "map alloc_of (trunk env config)
               @ [alloc_of (Conv2d (encoder_channels config) 3 1 (w_final env))]"
  consider "mode = ''vit''" | "mode \<noteq> ''vit''" "mode = ''dino-output''"
    | "mode \<noteq> ''vit''" "mode \<noteq> ''dino-output''" "mode = ''dino-attention''"
    | "mode \<noteq> ''vit''" "mode \<noteq> ''dino-output''" "mode \<noteq> ''dino-attention''"
    by blast
  then show ?thesis
  proof cases
    case 1
    then show ?thesis using assms
      by (cases "lib_ViT env (vit_arguments config)") (simp_all add: Encoder_init_def Let_def)
  next
    case 2
    then show ?thesis using assms
      by (cases "lib_feature_extractor env dino_checkpoint";
          cases "lib_ViTModel env dino_checkpoint False")
         (simp_all add: Encoder_init_def Let_def)
  next
    case 3
    then show ?thesis using assms
      by (cases "lib_feature_extractor env dino_checkpoint";
          cases "lib_ViTModel env dino_checkpoint True")
         (simp_all add: Encoder_init_def Let_def)
  next
    case 4
    then show ?thesis using assms
      by (simp add: Encoder_init_def Let_def)
  qed
qed

lemma init_Inr:
  assumes "Encoder_init env config = (tr, Inr e0)"
  shows "\<exists>mode. cfg_encoder_mode config = Some mode
           \<and> (mode = ''vit'' \<or> mode = ''dino-output'' \<or> mode = ''dino-attention'')
           \<and> encoder_mode e0 = mode
           \<and> enc_H e0 = cfg_H config \<and> enc_W e0 = cfg_W config
           \<and> conv_channels e0 = encoder_channels config
           \<and> conv_layers e0 = trunk env config
           \<and> final_layer e0 = Conv2d (encoder_channels config) 3 1 (w_final env)
           \<and> after_concat_layer e0 =
               ConvBNRelu (if mode = ''dino-attention'' then 39
                           else encoder_channels config + 3 + message_length config)
                 (encoder_channels config) (w_after_concat env)"
  using assms
  by (auto simp add: Encoder_init_def Let_def new_Encoder_def split: option.splits if_splits sum.splits)

lemma upt_0_2: "[0..<2] = [0, Suc 0]"
  by (simp add: upt_conv_Cons)

lemmas example_init_defs = Encoder_init_def trunk_def ConvBNRelu_def Conv2d_def Linear_def alloc_of_def
  new_Encoder_def vit_arguments_def example_env_def example_config_def dino_checkpoint_def

section \<open>Construction: the selector\<close>

text \<open>
  Claim C2. A configuration without a selector is refused before anything is built: the
  list of created modules is empty. A selector that is none of \<^verbatim>\<open>vit\<close>,
  \<^verbatim>\<open>dino-output\<close>, \<^verbatim>\<open>dino-attention\<close> is refused too, with a ValueError, but at
  line 59: the trunk and the final convolution of lines 26 to 31 exist by then, and nothing
  of a strategy (fusion block, transformer, pretrained model, linear layer) does.
\<close>

theorem init_rejects_bad_mode:
  "(cfg_encoder_mode config = None \<longrightarrow>
      Encoder_init env config = ([], Inl (ValueError missing_mode_message)))
   \<and> (\<forall>mode. cfg_encoder_mode config = Some mode
          \<and> mode \<noteq> ''vit'' \<and> mode \<noteq> ''dino-output'' \<and> mode \<noteq> ''dino-attention'' \<longrightarrow>
        Encoder_init env config =
          (Alloc_layer K_ConvBNRelu 3 (encoder_channels config)
             # replicate (nat (encoder_blocks config - 1))
                 (Alloc_layer K_ConvBNRelu (encoder_channels config) (encoder_channels config))
             @ [Alloc_layer (K_Conv2d 1) (encoder_channels config) 3],
           Inl (ValueError (invalid_mode_message mode))))"
  by (simp add: Encoder_init_def Let_def alloc_trunk) (simp add: alloc_of_def Conv2d_def)

theorem init_rejects_bad_mode_witness:
  "Encoder_init example_env (example_config None 128 3 30) = ([], Inl (ValueError missing_mode_message))
   \<and> Encoder_init example_env (example_config (Some ''dino'') 128 3 30) =
       ([Alloc_layer K_ConvBNRelu 3 4, Alloc_layer K_ConvBNRelu 4 4, Alloc_layer K_ConvBNRelu 4 4,
         Alloc_layer (K_Conv2d 1) 4 3],
        Inl (ValueError (invalid_mode_message ''dino'')))"
proof -
  have n: "cfg_encoder_mode (example_config None 128 3 30) = None"
    by (simp add: example_config_def)
  have s: "cfg_encoder_mode (example_config (Some ''dino'') 128 3 30) = Some ''dino''
      \<and> ''dino'' \<noteq> ''vit'' \<and> ''dino'' \<noteq> ''dino-output'' \<and> ''dino'' \<noteq> ''dino-attention''"
    by (simp add: example_config_def)
  have r: "replicate 2 x = [x, x]" for x :: alloc
    by (simp add: numeral_2_eq_2)
  from init_rejects_bad_mode [of "example_config None 128 3 30" example_env] n
  have a: "Encoder_init example_env (example_config None 128 3 30) = ([], Inl (ValueError missing_mode_message))"
    by blast
  from init_rejects_bad_mode [of "example_config (Some ''dino'') 128 3 30" example_env] s
  have "Encoder_init example_env (example_config (Some ''dino'') 128 3 30) =
          (Alloc_layer K_ConvBNRelu 3 (encoder_channels (example_config (Some ''dino'') 128 3 30))
             # replicate (nat (encoder_blocks (example_config (Some ''dino'') 128 3 30) - 1))
                 (Alloc_layer K_ConvBNRelu (encoder_channels (example_config (Some ''dino'') 128 3 30)) (encoder_channels (example_config (Some ''dino'') 128 3 30)))
             @ [Alloc_layer (K_Conv2d 1) (encoder_channels (example_config (Some ''dino'') 128 3 30)) 3],
           Inl (ValueError (invalid_mode_message ''dino'')))"
    by blast
  then have b: "Encoder_init example_env (example_config (Some ''dino'') 128 3 30) =
       ([Alloc_layer K_ConvBNRelu 3 4, Alloc_layer K_ConvBNRelu 4 4, Alloc_layer K_ConvBNRelu 4 4,
         Alloc_layer (K_Conv2d 1) 4 3],
        Inl (ValueError (invalid_mode_message ''dino'')))"
    by (simp add: example_config_def r)
  from a b show ?thesis by blast
qed

text \<open>
  With the selector \<^verbatim>\<open>foo\<close> the error is raised after four modules with weights have
  been created: not before any weight allocation.
\<close>

theorem init_allocates_before_invalid_mode:
  "Encoder_init example_env (example_config (Some ''foo'') 128 3 30) =
     ([Alloc_layer K_ConvBNRelu 3 4, Alloc_layer K_ConvBNRelu 4 4, Alloc_layer K_ConvBNRelu 4 4,
       Alloc_layer (K_Conv2d 1) 4 3],
      Inl (ValueError (invalid_mode_message ''foo'')))"
  by (simp add: example_init_defs Let_def upt_0_2)

section \<open>Construction: the trunk\<close>

text \<open>
  Claim C10. For every configuration with a selector, construction first creates the
  trunk, then a final convolution with kernel 1 from \<open>encoder_channels\<close> to 3 channels.
  The trunk has one block from 3 to \<open>encoder_channels\<close> channels followed by
  \<open>encoder_blocks - 1\<close> blocks (none when that is not positive) from \<open>encoder_channels\<close>
  to \<open>encoder_channels\<close>: \<open>max 1 encoder_blocks\<close> blocks, which is \<open>encoder_blocks\<close> when
  that is at least 1. An encoder that construction returns holds this trunk and this
  final convolution.
\<close>

theorem init_builds_trunk:
  assumes "cfg_encoder_mode config = Some mode"
  shows "(\<exists>rest. fst (Encoder_init env config) =
            map alloc_of (trunk env config)
              @ Alloc_layer (K_Conv2d 1) (encoder_channels config) 3 # rest)
       \<and> map alloc_of (trunk env config) =
            Alloc_layer K_ConvBNRelu 3 (encoder_channels config)
              # replicate (nat (encoder_blocks config - 1))
                  (Alloc_layer K_ConvBNRelu (encoder_channels config) (encoder_channels config))
       \<and> int (length (trunk env config)) = max 1 (encoder_blocks config)
       \<and> (\<forall>enc. snd (Encoder_init env config) = Inr enc \<longrightarrow>
             conv_layers enc = trunk env config
             \<and> alloc_of (final_layer enc) = Alloc_layer (K_Conv2d 1) (encoder_channels config) 3
             \<and> conv_channels enc = encoder_channels config)"
proof -
  from init_trace_prefix [OF assms, of env]
  have 1: "\<exists>rest. fst (Encoder_init env config) =
            map alloc_of (trunk env config)
              @ Alloc_layer (K_Conv2d 1) (encoder_channels config) 3 # rest"
    by (simp add: alloc_of_def Conv2d_def)
  have 2: "conv_layers enc = trunk env config
      \<and> alloc_of (final_layer enc) = Alloc_layer (K_Conv2d 1) (encoder_channels config) 3
      \<and> conv_channels enc = encoder_channels config"
    if "snd (Encoder_init env config) = Inr enc" for enc
  proof -
    from that have "Encoder_init env config = (fst (Encoder_init env config), Inr enc)"
      by (simp add: prod_eq_iff)
    from init_Inr [OF this] have "conv_layers enc = trunk env config"
        "final_layer enc = Conv2d (encoder_channels config) 3 1 (w_final env)"
        "conv_channels enc = encoder_channels config"
      by blast+
    then show ?thesis
      by (simp add: alloc_of_def Conv2d_def)
  qed
  from 1 2 show ?thesis
    by (simp add: alloc_trunk length_trunk)
qed

theorem init_builds_trunk_witness:
  "\<exists>rest enc.
      fst (Encoder_init example_env (example_config (Some ''dino-output'') 128 3 30)) =
        [Alloc_layer K_ConvBNRelu 3 4, Alloc_layer K_ConvBNRelu 4 4, Alloc_layer K_ConvBNRelu 4 4,
         Alloc_layer (K_Conv2d 1) 4 3] @ rest
    \<and> snd (Encoder_init example_env (example_config (Some ''dino-output'') 128 3 30)) = Inr enc
    \<and> length (conv_layers enc) = 3
    \<and> alloc_of (final_layer enc) = Alloc_layer (K_Conv2d 1) 4 3"
proof -
  let ?cfg = "example_config (Some ''dino-output'') 128 3 30"
  have mode: "cfg_encoder_mode ?cfg = Some ''dino-output''"
    by (simp add: example_config_def)
  obtain enc where ok: "snd (Encoder_init example_env ?cfg) = Inr enc"
    by (simp add: example_init_defs Let_def)
  have c: "encoder_channels ?cfg = 4" "encoder_blocks ?cfg = 3"
    by (simp_all add: example_config_def)
  have r: "replicate 2 x = [x, x]" for x :: alloc
    by (simp add: numeral_2_eq_2)
  note T = init_builds_trunk [OF mode, of example_env]
  from T obtain rest where t1: "fst (Encoder_init example_env ?cfg) =
        map alloc_of (trunk example_env ?cfg) @ Alloc_layer (K_Conv2d 1) (encoder_channels ?cfg) 3 # rest"
    by (elim conjE exE)
  from T have t2: "map alloc_of (trunk example_env ?cfg) =
         Alloc_layer K_ConvBNRelu 3 (encoder_channels ?cfg)
           # replicate (nat (encoder_blocks ?cfg - 1))
               (Alloc_layer K_ConvBNRelu (encoder_channels ?cfg) (encoder_channels ?cfg))"
    by (elim conjE)
  from T have t3: "int (length (trunk example_env ?cfg)) = max 1 (encoder_blocks ?cfg)"
    by (elim conjE)
  from T have t4: "\<forall>enc. snd (Encoder_init example_env ?cfg) = Inr enc \<longrightarrow>
             conv_layers enc = trunk example_env ?cfg
             \<and> alloc_of (final_layer enc) = Alloc_layer (K_Conv2d 1) (encoder_channels ?cfg) 3
             \<and> conv_channels enc = encoder_channels ?cfg"
    by (elim conjE)
  from t4 ok have e1: "conv_layers enc = trunk example_env ?cfg"
    by blast
  from t4 ok have e2: "alloc_of (final_layer enc) = Alloc_layer (K_Conv2d 1) (encoder_channels ?cfg) 3"
    by blast
  from t1 t2 have "fst (Encoder_init example_env ?cfg) =
        [Alloc_layer K_ConvBNRelu 3 4, Alloc_layer K_ConvBNRelu 4 4, Alloc_layer K_ConvBNRelu 4 4,
         Alloc_layer (K_Conv2d 1) 4 3] @ rest"
    by (simp add: c r)
  moreover note ok
  moreover from t3 e1 have "length (conv_layers enc) = 3"
    by (simp add: c)
  moreover from e2 have "alloc_of (final_layer enc) = Alloc_layer (K_Conv2d 1) 4 3"
    by (simp add: c)
  ultimately show ?thesis
    by (intro exI conjI)
qed

text \<open>
  With \<open>encoder_blocks = 0\<close> the trunk has one block, not \<open>encoder_blocks\<close> blocks; and
  for a configuration without a selector nothing is built.
\<close>

theorem trunk_of_zero_blocks:
  "encoder_blocks (example_config (Some ''vit'') 128 0 30) = 0
   \<and> length (trunk example_env (example_config (Some ''vit'') 128 0 30)) = 1
   \<and> fst (Encoder_init example_env (example_config (Some ''vit'') 128 0 30)) =
       [Alloc_layer K_ConvBNRelu 3 4, Alloc_layer (K_Conv2d 1) 4 3, Alloc_layer K_ConvBNRelu 37 4,
        Alloc_ViT (vit_arguments (example_config (Some ''vit'') 128 0 30))]
   \<and> fst (Encoder_init example_env (example_config None 128 3 30)) = []"
  by (simp add: example_init_defs Let_def)

section \<open>Construction: the vision transformer\<close>

text \<open>
  Claim C6. For strategy \<^verbatim>\<open>vit\<close>, when the library builds the transformer,
  construction returns an encoder whose transformer was built for the configured image
  size with patch size 32, an output of \<open>128 * 128 * conv_channels\<close> numbers and depth
  \<open>decoder_blocks div 2\<close>.
\<close>

theorem init_builds_vit:
  assumes mode: "cfg_encoder_mode config = Some ''vit''"
    and lib: "lib_ViT env (vit_arguments config) = Inr f"
  shows "\<exists>tr enc v. Encoder_init env config = (tr, Inr enc) \<and> vit enc = Some v \<and> vit_fn v = f
           \<and> Alloc_ViT (vit_args v) \<in> set tr
           \<and> image_size (vit_args v) = (cfg_H config, cfg_W config)
           \<and> patch_size (vit_args v) = 32
           \<and> num_classes (vit_args v) = 128 * 128 * conv_channels enc
           \<and> conv_channels enc = encoder_channels config
           \<and> depth (vit_args v) = decoder_blocks config div 2"
  using assms by (simp add: Encoder_init_def Let_def new_Encoder_def vit_arguments_def)

theorem init_builds_vit_witness:
  "\<exists>tr enc v.
      Encoder_init example_env (example_config (Some ''vit'') 128 3 30) = (tr, Inr enc)
    \<and> vit enc = Some v
    \<and> image_size (vit_args v) = (128, 128)
    \<and> patch_size (vit_args v) = 32
    \<and> num_classes (vit_args v) = 65536
    \<and> depth (vit_args v) = 3"
proof -
  let ?cfg = "example_config (Some ''vit'') 128 3 30"
  have mode: "cfg_encoder_mode ?cfg = Some ''vit''"
    by (simp add: example_config_def)
  have lib: "lib_ViT example_env (vit_arguments ?cfg)
               = Inr (projr (lib_ViT example_env (vit_arguments ?cfg)))"
    by (simp add: example_env_def)
  have c: "cfg_H ?cfg = 128" "cfg_W ?cfg = 128" "encoder_channels ?cfg = 4" "decoder_blocks ?cfg = 7"
    by (simp_all add: example_config_def)
  from init_builds_vit [OF mode lib]
  obtain tr enc v where "Encoder_init example_env ?cfg = (tr, Inr enc)" "vit enc = Some v"
      "image_size (vit_args v) = (cfg_H ?cfg, cfg_W ?cfg)"
      "patch_size (vit_args v) = 32"
      "num_classes (vit_args v) = 128 * 128 * conv_channels enc"
      "conv_channels enc = encoder_channels ?cfg"
      "depth (vit_args v) = decoder_blocks ?cfg div 2"
    by blast
  moreover from this have "image_size (vit_args v) = (128, 128)" "num_classes (vit_args v) = 65536"
      "depth (vit_args v) = 3"
    by (simp_all add: c)
  ultimately show ?thesis by blast
qed

section \<open>Shapes through the operations\<close>

lemma promote_same [simp]: "promote a a = a"
  by (simp add: promote_def)

lemma cat_pair_Inr:
  "cat_pair s t = Inr c \<longleftrightarrow>
     2 \<le> length (shape s) \<and> length (shape s) = length (shape t)
     \<and> hd (shape s) = hd (shape t) \<and> drop 2 (shape s) = drop 2 (shape t)
     \<and> device s = device t
     \<and> c = \<lparr>shape = hd (shape s) # (shape s ! 1 + shape t ! 1) # drop 2 (shape s),
            dtype = promote (dtype s) (dtype t),
            device = device s,
            elems = (\<lambda>idx. if idx ! 1 < shape s ! 1 then elems s idx
                           else elems t (idx[1 := idx ! 1 - shape s ! 1]))\<rparr>"
  by (auto simp add: cat_pair_def)

lemma cat3_shapes:
  assumes "cat_dim1 [m, s, i] = Inr c"
  shows "drop 2 (shape m) = drop 2 (shape s) \<and> drop 2 (shape s) = drop 2 (shape i)
         \<and> length (shape m) = length (shape s) \<and> length (shape s) = length (shape i)
         \<and> hd (shape m) = hd (shape s) \<and> hd (shape s) = hd (shape i)
         \<and> device m = device s \<and> device s = device i
         \<and> shape c = hd (shape m) # (shape m ! 1 + (shape s ! 1 + shape i ! 1)) # drop 2 (shape m)
         \<and> dtype c = promote (dtype m) (promote (dtype s) (dtype i))
         \<and> device c = device m"
proof -
  from assms obtain c1 where c1: "cat_pair s i = Inr c1" and c: "cat_pair m c1 = Inr c"
    by (auto simp add: and_then_eq_Inr split: if_splits)
  from c1 have s1: "shape c1 = hd (shape s) # (shape s ! 1 + shape i ! 1) # drop 2 (shape s)"
    "dtype c1 = promote (dtype s) (dtype i)" "device c1 = device s"
    and p1: "2 \<le> length (shape s)" "length (shape s) = length (shape i)" "hd (shape s) = hd (shape i)"
      "drop 2 (shape s) = drop 2 (shape i)" "device s = device i"
    by (simp_all add: cat_pair_Inr)
  from c have p2: "length (shape m) = length (shape c1)" "hd (shape m) = hd (shape c1)"
      "drop 2 (shape m) = drop 2 (shape c1)" "device m = device c1"
    and s2: "shape c = hd (shape m) # (shape m ! 1 + shape c1 ! 1) # drop 2 (shape m)"
      "dtype c = promote (dtype m) (dtype c1)" "device c = device m"
    by (simp_all add: cat_pair_Inr)
  from p1 have l: "length (shape c1) = length (shape s)"
    by (simp add: s1)
  show ?thesis
    using p1 p2 s2 l by (simp add: s1)
qed


lemma expand_message_Inr:
  assumes "expand_message message H W = Inr m"
  shows "\<exists>a b. shape message = [a, b] \<and> shape m = [a, b, H, W]
           \<and> dtype m = dtype message \<and> device m = device message"
proof -
  from assms have "length (shape message) = 2"
    by (auto simp add: expand_message_def expand4_def unsqueeze_last_def split: list.splits if_splits)
  then obtain a b where "shape message = [a, b]"
    by (metis (no_types) Suc_length_conv length_0_conv numeral_2_eq_2)
  with assms show ?thesis
    by (auto simp add: expand_message_def expand4_def unsqueeze_last_def)
qed


lemma fusion_Inr:
  assumes "fusion enc c = Inr out"
  shows "\<exists>b h w k. shape c = [b, l_in (after_concat_layer enc), h, w]
           \<and> kind (final_layer enc) = K_Conv2d k
           \<and> shape out = [b, l_out (final_layer enc), h + 1 - k, w + 1 - k]
           \<and> dtype out = dtype c \<and> device out = device c
           \<and> dtype c = l_dtype (after_concat_layer enc) \<and> device c = l_device (after_concat_layer enc)"
  using assms
  by (auto simp add: fusion_def and_then_eq_Inr ConvBNRelu_forward_def Conv2d_forward_def placed_for_def
      split: if_splits list.splits layer_kind.splits)


lemma reshape_Inr: "reshape t sh = Inr r \<Longrightarrow> shape r = sh \<and> dtype r = dtype t \<and> device r = device t"
  by (auto simp add: reshape_def split: if_splits)

lemma interpolate_Inr:
  "interpolate t n = Inr r \<Longrightarrow>
     \<exists>b c h w. shape t = [b, c, h, w] \<and> shape r = [b, c, n, n] \<and> dtype r = dtype t \<and> device r = device t"
  by (auto simp add: interpolate_def split: if_splits list.splits)

lemma cls_to_patch_Inr:
  "cls_to_patch a = Inr r \<Longrightarrow>
     \<exists>b h q k rest. shape a = b # h # q # k # rest \<and> shape r = b # h # (k - 1) # rest
        \<and> dtype r = dtype a \<and> device r = device a"
  by (auto simp add: cls_to_patch_def split: if_splits list.splits)

lemma attention_map_Inr:
  assumes "attention_map outputs = Inr s"
  shows "\<exists>atts. attentions outputs = Some atts \<and> atts \<noteq> []
           \<and> shape s = [shape (last atts) ! 0, shape (last atts) ! 1, 128, 128]
           \<and> dtype s = dtype (last atts) \<and> device s = device (last atts)"
proof -
  from assms obtain atts a1 a2 where a: "attentions outputs = Some atts" "atts \<noteq> []"
    and c: "cls_to_patch (last atts) = Inr a1"
    and r: "reshape a1 [shape a1 ! 0, shape a1 ! 1, 28, 28] = Inr a2"
    and i: "interpolate a2 128 = Inr s"
    by (auto simp add: attention_map_def and_then_eq_Inr split: option.splits if_splits)
  from cls_to_patch_Inr [OF c] have 1: "shape a1 ! 0 = shape (last atts) ! 0"
    "shape a1 ! 1 = shape (last atts) ! 1" "dtype a1 = dtype (last atts)" "device a1 = device (last atts)"
    by auto
  from reshape_Inr [OF r] have 2: "shape a2 = [shape a1 ! 0, shape a1 ! 1, 28, 28]"
    "dtype a2 = dtype a1" "device a2 = device a1"
    by simp_all
  from interpolate_Inr [OF i] 2 have 3: "shape s = [shape a1 ! 0, shape a1 ! 1, 128, 128]"
    "dtype s = dtype a2" "device s = device a2"
    by auto
  from a 1 2 3 show ?thesis by simp
qed

lemma vit_semantic_Inr:
  "vit_semantic enc img = Inr s \<Longrightarrow> shape s = [hd (shape img), conv_channels enc, 128, 128]"
  by (auto simp add: vit_semantic_def and_then_eq_Inr shape0_def dest!: reshape_Inr split: list.splits)

lemma dino_output_semantic_Inr:
  "dino_output_semantic enc img = Inr s \<Longrightarrow> shape s = [hd (shape img), conv_channels enc, 128, 128]"
  by (auto simp add: dino_output_semantic_def and_then_eq_Inr shape0_def dest!: reshape_Inr split: list.splits)

lemma dino_attention_semantic_Inr:
  "dino_attention_semantic enc img = Inr s \<Longrightarrow>
     \<exists>outs atts. dino_outputs enc img = Inr outs \<and> attentions outs = Some atts \<and> atts \<noteq> []
        \<and> shape s = [shape (last atts) ! 0, shape (last atts) ! 1, 128, 128]"
  by (auto simp add: dino_attention_semantic_def and_then_eq_Inr dest!: attention_map_Inr)

lemma semantic_Inr:
  "semantic_representation_of enc img = Inr s \<Longrightarrow> \<exists>b c. shape s = [b, c, 128, 128]"
  by (auto simp add: semantic_representation_of_def split: if_splits
      dest: vit_semantic_Inr dino_output_semantic_Inr dino_attention_semantic_Inr)

text \<open>Every forward pass is: the semantic representation, the broadcast message, the concatenation, the fusion.\<close>

lemma forward_Inr:
  assumes "forward enc img message = Inr out"
  shows "\<exists>s m c. semantic_representation_of enc img = Inr s
           \<and> expand_message message (enc_H enc) (enc_W enc) = Inr m
           \<and> cat_dim1 [m, s, img] = Inr c \<and> fusion enc c = Inr out"
  using assms
  by (auto simp add: forward_def semantic_representation_of_def forward_vit_def forward_dino_output_def
      forward_dino_attention_def concat_vit_def concat_dino_output_def concat_dino_attention_def
      and_then_eq_Inr split: if_splits)

lemma Encoder_to_simps [simp]:
  "encoder_mode (Encoder_to dev dt e) = encoder_mode e"
  "enc_H (Encoder_to dev dt e) = enc_H e"
  "enc_W (Encoder_to dev dt e) = enc_W e"
  "conv_channels (Encoder_to dev dt e) = conv_channels e"
  "conv_layers (Encoder_to dev dt e) = map (layer_to dev dt) (conv_layers e)"
  "final_layer (Encoder_to dev dt e) = layer_to dev dt (final_layer e)"
  "after_concat_layer (Encoder_to dev dt e) = layer_to dev dt (after_concat_layer e)"
  "vit (Encoder_to dev dt e) = vit e"
  "model (Encoder_to dev dt e) = model e"
  "feature_extractor (Encoder_to dev dt e) = feature_extractor e"
  by (simp_all add: Encoder_to_def)

lemma layer_to_simps [simp]:
  "l_in (layer_to dev dt l) = l_in l"
  "l_out (layer_to dev dt l) = l_out l"
  "kind (layer_to dev dt l) = kind l"
  "l_dtype (layer_to dev dt l) = dt"
  "l_device (layer_to dev dt l) = dev"
  "l_fn (layer_to dev dt l) = l_fn l"
  by (simp_all add: layer_to_def)

lemmas example_forward_defs = forward_def forward_vit_def forward_dino_output_def
  forward_dino_attention_def concat_vit_def concat_dino_output_def concat_dino_attention_def
  semantic_representation_of_def vit_semantic_def dino_output_semantic_def dino_attention_semantic_def
  dino_outputs_def attention_map_def image_list_of_def cls_to_patch_def interpolate_def
  fusion_def attribute_def shape0_def reshape_def expand_message_def expand4_def unsqueeze_last_def
  ConvBNRelu_forward_def Conv2d_forward_def Linear_forward_def placed_for_def cat_pair_def
  Encoder_to_def layer_to_def example_image_def example_message_def promote_def


section \<open>The side 128\<close>

text \<open>
  Claim C4. Whatever the strategy and the configured \<open>H\<close> and \<open>W\<close>, a semantic
  representation has the spatial size 128 by 128. It is concatenated along the channel
  axis with the message broadcast to \<open>H\<close> by \<open>W\<close> and with the image, so a forward pass
  that returns has \<open>H = W = 128\<close> and an image of side 128.
\<close>

theorem forward_needs_side_128:
  "(\<forall>s. semantic_representation_of enc img = Inr s \<longrightarrow> (\<exists>b ch. shape s = [b, ch, 128, 128]))
   \<and> (forward enc img message = Inr out \<and> shape img = [B, c, Hi, Wi] \<longrightarrow>
         enc_H enc = 128 \<and> enc_W enc = 128 \<and> Hi = 128 \<and> Wi = 128)"
proof -
  have 1: "\<exists>b ch. shape s = [b, ch, 128, 128]"
    if "semantic_representation_of enc img = Inr s" for s
    using that by (rule semantic_Inr)
  have 2: "enc_H enc = 128 \<and> enc_W enc = 128 \<and> Hi = 128 \<and> Wi = 128"
    if ok: "forward enc img message = Inr out" and img: "shape img = [B, c, Hi, Wi]"
  proof -
    from forward_Inr [OF ok] obtain s m c where s: "semantic_representation_of enc img = Inr s"
      and m: "expand_message message (enc_H enc) (enc_W enc) = Inr m"
      and c: "cat_dim1 [m, s, img] = Inr c"
      by blast
    from semantic_Inr [OF s] obtain b ch where ss: "shape s = [b, ch, 128, 128]" by blast
    from expand_message_Inr [OF m] obtain a l where sm: "shape m = [a, l, enc_H enc, enc_W enc]" by blast
    from cat3_shapes [OF c] have "drop 2 (shape m) = drop 2 (shape s)" "drop 2 (shape s) = drop 2 (shape img)"
      by simp_all
    with ss sm img show ?thesis
      by simp
  qed
  from 1 2 show ?thesis by blast
qed

theorem forward_needs_side_128_witness:
  "\<exists>out s b ch.
      forward
        (Encoder_to CUDA Float32
           (projr (snd (Encoder_init example_env (example_config (Some ''dino-output'') 128 3 30)))))
        (example_image CUDA 128) (example_message CUDA 30) = Inr out
    \<and> enc_H (Encoder_to CUDA Float32
           (projr (snd (Encoder_init example_env (example_config (Some ''dino-output'') 128 3 30))))) = 128
    \<and> enc_W (Encoder_to CUDA Float32
           (projr (snd (Encoder_init example_env (example_config (Some ''dino-output'') 128 3 30))))) = 128
    \<and> semantic_representation_of
        (Encoder_to CUDA Float32
           (projr (snd (Encoder_init example_env (example_config (Some ''dino-output'') 128 3 30)))))
        (example_image CUDA 128) = Inr s
    \<and> shape s = [b, ch, 128, 128]"
proof -
  let ?cfg = "example_config (Some ''dino-output'') 128 3 30"
  let ?img = "example_image CUDA 128"
  let ?msg = "example_message CUDA 30"
  let ?enc = "Encoder_to CUDA Float32 (projr (snd (Encoder_init example_env ?cfg)))"
  have img: "shape ?img = [2, 3, 128, 128]"
    by (simp add: example_image_def)
  have "\<exists>out. forward ?enc ?img ?msg = Inr out"
    by (simp add: example_init_defs example_forward_defs Let_def upt_0_2)
  then obtain out where ok: "forward ?enc ?img ?msg = Inr out" ..
  from forward_Inr [OF ok] obtain s where sem: "semantic_representation_of ?enc ?img = Inr s"
    by blast
  note T = forward_needs_side_128 [where enc = "?enc" and img = "?img" and message = "?msg"
      and out = out and B = 2 and c = 3 and Hi = 128 and Wi = 128]
  from T sem obtain b ch where sh: "shape s = [b, ch, 128, 128]"
    by blast
  from T ok img have H: "enc_H ?enc = 128" and W: "enc_W ?enc = 128"
    by blast+
  from ok H W sem sh show ?thesis
    by (intro exI conjI)
qed

section \<open>The semantic representation of strategy dino-attention\<close>

text \<open>
  Claim C7. For strategy \<^verbatim>\<open>dino-attention\<close>, when the pretrained model returns a last
  attention tensor of shape \<open>(B, nh, q, 785)\<close>, the semantic representation is made from
  it: for every head, the row of the class token without its first entry (the class
  token's attention to itself), read as a grid of side 28 and interpolated to side 128.
  It has shape \<open>(B, nh, 128, 128)\<close>: as many channels as the model has heads, whatever the
  batch size. It is the tensor that the forward pass concatenates with the message and the
  image.
\<close>

theorem dino_attention_semantic_selects:
  assumes mode: "encoder_mode enc = ''dino-attention''"
    and outs: "dino_outputs enc img = Inr outputs"
    and atts: "attentions outputs = Some atts" "atts \<noteq> []"
    and sh: "shape (last atts) = [B, nh, q, 785]" and pos: "0 < q" "0 < nh"
  shows "\<exists>a. semantic_representation_of enc img = Inr a
           \<and> dino_attention_semantic enc img = Inr a
           \<and> shape a = [B, nh, 128, 128]
           \<and> (\<forall>b<B. \<forall>h<nh. \<forall>y<128. \<forall>x<128.
                 elems a [b, h, y, x]
                   = elems (last atts) [b, h, 0, Suc (28 * ((y * 28) div 128) + (x * 28) div 128)])
           \<and> (\<forall>message. concat_dino_attention enc img message =
                 and_then (expand_message message (enc_H enc) (enc_W enc))
                   (\<lambda>expanded_message. cat_dim1 [expanded_message, a, img]))
           \<and> (\<forall>message. forward enc img message =
                 and_then (concat_dino_attention enc img message) (fusion enc))"
proof -
  from attention_map_grid [OF atts sh pos]
  obtain a where a: "attention_map outputs = Inr a" and s: "shape a = [B, nh, 128, 128]"
    and e: "\<forall>b<B. \<forall>h<nh. \<forall>y<128. \<forall>x<128.
              elems a [b, h, y, x]
                = elems (last atts) [b, h, 0, Suc (28 * ((y * 28) div 128) + (x * 28) div 128)]"
    by blast
  have d: "dino_attention_semantic enc img = Inr a"
    using outs a by (simp add: dino_attention_semantic_def)
  have r: "semantic_representation_of enc img = Inr a"
    using mode d by (simp add: semantic_representation_of_def)
  have c: "\<forall>message. concat_dino_attention enc img message =
             and_then (expand_message message (enc_H enc) (enc_W enc))
               (\<lambda>expanded_message. cat_dim1 [expanded_message, a, img])"
    using d by (simp add: concat_dino_attention_def del: cat_dim1.simps)
  have f: "\<forall>message. forward enc img message =
             and_then (concat_dino_attention enc img message) (fusion enc)"
    using mode by (simp add: forward_def forward_dino_attention_def)
  show ?thesis
    by (rule exI [of _ a]) (intro conjI r d s e c f)
qed

theorem dino_attention_semantic_selects_witness:
  "\<exists>a. semantic_representation_of
          (Encoder_to CUDA Float32
             (projr (snd (Encoder_init example_env (example_config (Some ''dino-attention'') 128 3 30)))))
          (example_image CUDA 128) = Inr a
       \<and> shape a = [2, 6, 128, 128]
       \<and> elems a [1, 3, 64, 100] = 414 \<and> elems a [0, 5, 0, 0] = 1 \<and> elems a [1, 0, 127, 127] = 784"
proof -
  let ?cfg = "example_config (Some ''dino-attention'') 128 3 30"
  let ?img = "example_image CUDA 128"
  let ?enc = "Encoder_to CUDA Float32 (projr (snd (Encoder_init example_env ?cfg)))"
  define t :: "nat tensor" where
    "t = \<lparr>shape = [2, 6, 785, 785], dtype = Float32, device = CUDA,
          elems = (\<lambda>idx. 1000 * idx ! 2 + idx ! 3)\<rparr>"
  define outputs :: "nat model_outputs" where
    "outputs = \<lparr>pooler_output = \<lparr>shape = [2, 384], dtype = Float32, device = CUDA,
                                 elems = (\<lambda>idx. 0)\<rparr>,
                attentions = Some [t]\<rparr>"
  have mode: "encoder_mode ?enc = ''dino-attention''"
    by (simp add: example_init_defs Let_def)
  have outs: "dino_outputs ?enc ?img = Inr outputs"
    by (simp add: example_init_defs example_forward_defs Let_def upt_0_2 outputs_def t_def)
  have a: "attentions outputs = Some [t]" and n: "[t] \<noteq> []"
    and sh: "shape (last [t]) = [2, 6, 785, 785]"
    by (simp_all add: outputs_def t_def)
  have q: "0 < (785::nat)" "0 < (6::nat)"
    by simp_all
  from dino_attention_semantic_selects [OF mode outs a n sh q]
  obtain a where m: "semantic_representation_of ?enc ?img = Inr a" "shape a = [2, 6, 128, 128]"
    and e: "\<forall>b<2. \<forall>h<6. \<forall>y<128. \<forall>x<128. elems a [b, h, y, x]
              = elems (last [t]) [b, h, 0, Suc (28 * ((y * 28) div 128) + (x * 28) div 128)]"
    by (elim exE conjE)
  from e have "elems a [1, 3, 64, 100] = elems (last [t]) [1, 3, 0, Suc (28 * ((64 * 28) div 128) + (100 * 28) div 128)]"
    and "elems a [0, 5, 0, 0] = elems (last [t]) [0, 5, 0, Suc (28 * ((0 * 28) div 128) + (0 * 28) div 128)]"
    and "elems a [1, 0, 127, 127] = elems (last [t]) [1, 0, 0, Suc (28 * ((127 * 28) div 128) + (127 * 28) div 128)]"
    by simp_all
  then have "elems a [1, 3, 64, 100] = 414" "elems a [0, 5, 0, 0] = 1" "elems a [1, 0, 127, 127] = 784"
    by (simp_all add: t_def)
  with m show ?thesis by blast
qed

section \<open>The channels of strategy dino-attention\<close>

text \<open>
  Claim C3. For strategy \<^verbatim>\<open>dino-attention\<close> the fusion block is built with the input width
  39. The concatenation given to it has as many channels as the message has entries, plus
  the number of attention heads of the pretrained model, plus the 3 of the image; and when
  \<^verbatim>\<open>forward_dino_attention\<close> (which is \<^verbatim>\<open>forward\<close> for this strategy) returns, that sum
  is 39.
\<close>

theorem dino_attention_channels:
  assumes init: "Encoder_init env config = (tr, Inr e0)"
    and mode: "cfg_encoder_mode config = Some ''dino-attention''"
    and img: "shape img = [B, 3, Hi, Wi]" and msg: "shape message = [B', L]"
  shows "l_in (after_concat_layer (Encoder_to dev dt e0)) = 39
       \<and> forward (Encoder_to dev dt e0) img message
           = forward_dino_attention (Encoder_to dev dt e0) img message
       \<and> (\<forall>c. concat_dino_attention (Encoder_to dev dt e0) img message = Inr c \<longrightarrow>
             (\<exists>outs atts. dino_outputs (Encoder_to dev dt e0) img = Inr outs
                \<and> attentions outs = Some atts \<and> atts \<noteq> []
                \<and> shape c ! 1 = L + shape (last atts) ! 1 + 3))
       \<and> (\<forall>out. forward_dino_attention (Encoder_to dev dt e0) img message = Inr out \<longrightarrow>
             (\<exists>outs atts c. dino_outputs (Encoder_to dev dt e0) img = Inr outs
                \<and> attentions outs = Some atts \<and> atts \<noteq> []
                \<and> concat_dino_attention (Encoder_to dev dt e0) img message = Inr c
                \<and> shape c ! 1 = L + shape (last atts) ! 1 + 3
                \<and> L + shape (last atts) ! 1 + 3 = 39))"
proof -
  let ?enc = "Encoder_to dev dt e0"
  from init_Inr [OF init] mode have w: "l_in (after_concat_layer ?enc) = 39"
    and em: "encoder_mode ?enc = ''dino-attention''"
    by (auto simp add: ConvBNRelu_def)
  have 1: "\<exists>outs atts. dino_outputs ?enc img = Inr outs \<and> attentions outs = Some atts \<and> atts \<noteq> []
             \<and> shape c ! 1 = L + shape (last atts) ! 1 + 3"
    if c: "concat_dino_attention ?enc img message = Inr c" for c
  proof -
    from c obtain s m where s: "dino_attention_semantic ?enc img = Inr s"
      and m: "expand_message message (enc_H ?enc) (enc_W ?enc) = Inr m"
      and cat: "cat_dim1 [m, s, img] = Inr c"
      by (auto simp add: concat_dino_attention_def and_then_eq_Inr)
    from dino_attention_semantic_Inr [OF s] obtain outs atts
      where o: "dino_outputs ?enc img = Inr outs" "attentions outs = Some atts" "atts \<noteq> []"
        and ss: "shape s = [shape (last atts) ! 0, shape (last atts) ! 1, 128, 128]"
      by blast
    from expand_message_Inr [OF m] msg have sm: "shape m ! 1 = L" by auto
    from cat3_shapes [OF cat] have "shape c ! 1 = shape m ! 1 + (shape s ! 1 + shape img ! 1)"
      by simp
    with sm ss img have "shape c ! 1 = L + shape (last atts) ! 1 + 3" by simp
    with o show ?thesis by blast
  qed
  have 2: "\<exists>outs atts c. dino_outputs ?enc img = Inr outs \<and> attentions outs = Some atts \<and> atts \<noteq> []
             \<and> concat_dino_attention ?enc img message = Inr c
             \<and> shape c ! 1 = L + shape (last atts) ! 1 + 3
             \<and> L + shape (last atts) ! 1 + 3 = 39"
    if ok: "forward_dino_attention ?enc img message = Inr out" for out
  proof -
    from ok obtain c where c: "concat_dino_attention ?enc img message = Inr c"
      and f: "fusion ?enc c = Inr out"
      by (auto simp add: forward_dino_attention_def and_then_eq_Inr)
    from 1 [OF c] obtain outs atts
      where o: "dino_outputs ?enc img = Inr outs" "attentions outs = Some atts" "atts \<noteq> []"
        and ch: "shape c ! 1 = L + shape (last atts) ! 1 + 3"
      by blast
    from fusion_Inr [OF f] w have "shape c ! 1 = 39" by auto
    with ch have "L + shape (last atts) ! 1 + 3 = 39" by simp
    with o c ch show ?thesis by blast
  qed
  have 3: "forward ?enc img message = forward_dino_attention ?enc img message"
    using em by (simp add: forward_def)
  from w 3 1 2 show ?thesis by blast
qed

theorem dino_attention_channels_witness:
  "\<exists>out outs atts c.
      forward_dino_attention
        (Encoder_to CUDA Float32
           (projr (snd (Encoder_init example_env (example_config (Some ''dino-attention'') 128 3 30)))))
        (example_image CUDA 128) (example_message CUDA 30) = Inr out
    \<and> dino_outputs
        (Encoder_to CUDA Float32
           (projr (snd (Encoder_init example_env (example_config (Some ''dino-attention'') 128 3 30)))))
        (example_image CUDA 128) = Inr outs
    \<and> attentions outs = Some atts
    \<and> concat_dino_attention
        (Encoder_to CUDA Float32
           (projr (snd (Encoder_init example_env (example_config (Some ''dino-attention'') 128 3 30)))))
        (example_image CUDA 128) (example_message CUDA 30) = Inr c
    \<and> shape c ! 1 = 39 \<and> shape (last atts) ! 1 = 6"
proof -
  let ?cfg = "example_config (Some ''dino-attention'') 128 3 30"
  let ?img = "example_image CUDA 128"
  let ?msg = "example_message CUDA 30"
  let ?e0 = "projr (snd (Encoder_init example_env ?cfg))"
  let ?enc = "Encoder_to CUDA Float32 ?e0"
  have init: "Encoder_init example_env ?cfg = (fst (Encoder_init example_env ?cfg), Inr ?e0)"
    by (simp add: example_init_defs Let_def)
  have mode: "cfg_encoder_mode ?cfg = Some ''dino-attention''"
    by (simp add: example_config_def)
  have img: "shape ?img = [2, 3, 128, 128]"
    by (simp add: example_image_def)
  have msg: "shape ?msg = [2, 30]"
    by (simp add: example_message_def)
  have "\<exists>out. forward_dino_attention ?enc ?img ?msg = Inr out"
    by (simp add: example_init_defs example_forward_defs Let_def upt_0_2)
  then obtain out where ok: "forward_dino_attention ?enc ?img ?msg = Inr out" ..
  note T = dino_attention_channels [OF init mode img msg, of CUDA Float32]
  from T have "\<forall>out. forward_dino_attention ?enc ?img ?msg = Inr out \<longrightarrow>
             (\<exists>outs atts c. dino_outputs ?enc ?img = Inr outs
                \<and> attentions outs = Some atts \<and> atts \<noteq> []
                \<and> concat_dino_attention ?enc ?img ?msg = Inr c
                \<and> shape c ! 1 = 30 + shape (last atts) ! 1 + 3
                \<and> 30 + shape (last atts) ! 1 + 3 = 39)"
    by (elim conjE)
  with ok obtain outs atts c where r: "dino_outputs ?enc ?img = Inr outs" "attentions outs = Some atts"
      "concat_dino_attention ?enc ?img ?msg = Inr c"
      "shape c ! 1 = 30 + shape (last atts) ! 1 + 3" "30 + shape (last atts) ! 1 + 3 = 39"
    by blast
  from r(4,5) have "shape c ! 1 = 39" "shape (last atts) ! 1 = 6" by simp_all
  with ok r(1,2,3) show ?thesis by blast
qed

section \<open>The forward pass returns\<close>







section \<open>The unused encoding of strategy vit\<close>

lemma ConvBNRelu_forward_arch:
  assumes "layer_arch l' = layer_arch l" "shape x' = shape x" "dtype x' = dtype x" "device x' = device x"
  shows "(\<exists>e. ConvBNRelu_forward l' x' = Inl e \<and> ConvBNRelu_forward l x = Inl e)
       \<or> (\<exists>y' y. ConvBNRelu_forward l' x' = Inr y' \<and> ConvBNRelu_forward l x = Inr y
            \<and> shape y' = shape y \<and> dtype y' = dtype y \<and> device y' = device y)"
  using assms
  by (auto simp add: layer_arch_def ConvBNRelu_forward_def placed_for_def split: list.splits)

lemma Sequential_forward_arch:
  assumes "map layer_arch ls' = map layer_arch ls"
    and "shape x' = shape x" "dtype x' = dtype x" "device x' = device x"
  shows "(\<exists>e. Sequential_forward ls' x' = Inl e \<and> Sequential_forward ls x = Inl e)
       \<or> (\<exists>y' y. Sequential_forward ls' x' = Inr y' \<and> Sequential_forward ls x = Inr y
            \<and> shape y' = shape y \<and> dtype y' = dtype y \<and> device y' = device y)"
  using assms
proof (induction ls arbitrary: ls' x x')
  case Nil
  then show ?case by simp
next
  case (Cons l ls)
  from Cons.prems(1) obtain l' ms where ls': "ls' = l' # ms" "layer_arch l' = layer_arch l"
      "map layer_arch ms = map layer_arch ls"
    by auto
  from ConvBNRelu_forward_arch [OF ls'(2) Cons.prems(2,3,4)]
  show ?case
  proof (elim disjE exE conjE)
    fix e assume "ConvBNRelu_forward l' x' = Inl e" "ConvBNRelu_forward l x = Inl e"
    then show ?thesis by (simp add: ls')
  next
    fix y' y assume s: "ConvBNRelu_forward l' x' = Inr y'" "ConvBNRelu_forward l x = Inr y"
      and "shape y' = shape y" "dtype y' = dtype y" "device y' = device y"
    from Cons.IH [OF ls'(3) this(3,4,5)] s show ?thesis by (simp add: ls')
  qed
qed

text \<open>
  Claim C9. \<^verbatim>\<open>forward_vit\<close> runs the trunk on the image (line 65), and what it returns
  does not depend on the trunk's weights: with the trunk replaced by one of the same
  architecture and any other weights, the same image and message give the same result;
  and whenever \<^verbatim>\<open>forward_vit\<close> returns, the trunk has returned its encoding.
\<close>

theorem forward_vit_ignores_trunk_weights:
  assumes "map layer_arch ls = map layer_arch (conv_layers enc)"
  shows "forward_vit (enc\<lparr>conv_layers := ls\<rparr>) img message = forward_vit enc img message
       \<and> (\<forall>out. forward_vit enc img message = Inr out \<longrightarrow>
            (\<exists>encoded_image. Sequential_forward (conv_layers enc) img = Inr encoded_image))"
proof -
  have v: "vit_semantic (enc\<lparr>conv_layers := ls\<rparr>) img = vit_semantic enc img"
    by (simp add: vit_semantic_def)
  have f: "fusion (enc\<lparr>conv_layers := ls\<rparr>) = fusion enc"
    by (simp add: fusion_def fun_eq_iff)
  have k: "and_then (Sequential_forward ls img) (\<lambda>encoded_image. r)
         = and_then (Sequential_forward (conv_layers enc) img) (\<lambda>encoded_image. r)"
    for r :: "error + 'a tensor"
    using Sequential_forward_arch [OF assms, of img img] by auto
  have "concat_vit (enc\<lparr>conv_layers := ls\<rparr>) img message = concat_vit enc img message"
    by (simp add: concat_vit_def v k del: cat_dim1.simps)
  then have 1: "forward_vit (enc\<lparr>conv_layers := ls\<rparr>) img message = forward_vit enc img message"
    by (simp add: forward_vit_def f)
  have 2: "\<exists>encoded_image. Sequential_forward (conv_layers enc) img = Inr encoded_image"
    if "forward_vit enc img message = Inr out" for out
    using that by (auto simp add: forward_vit_def concat_vit_def and_then_eq_Inr)
  from 1 2 show ?thesis by blast
qed

theorem forward_vit_ignores_trunk_weights_witness:
  "forward_vit
     ((projr (snd (Encoder_init example_env (example_config (Some ''vit'') 128 3 30))))
        \<lparr>conv_layers := map (\<lambda>l. l\<lparr>l_fn := (\<lambda>x idx. 1)\<rparr>)
           (conv_layers (projr (snd (Encoder_init example_env (example_config (Some ''vit'') 128 3 30)))))\<rparr>)
     (example_image CPU 128) (example_message CPU 30)
   = forward_vit (projr (snd (Encoder_init example_env (example_config (Some ''vit'') 128 3 30))))
       (example_image CPU 128) (example_message CPU 30)
   \<and> (\<exists>out encoded_image.
        forward_vit (projr (snd (Encoder_init example_env (example_config (Some ''vit'') 128 3 30))))
          (example_image CPU 128) (example_message CPU 30) = Inr out
      \<and> Sequential_forward
          (conv_layers (projr (snd (Encoder_init example_env (example_config (Some ''vit'') 128 3 30)))))
          (example_image CPU 128) = Inr encoded_image)"
proof -
  let ?cfg = "example_config (Some ''vit'') 128 3 30"
  let ?img = "example_image CPU 128"
  let ?msg = "example_message CPU 30"
  let ?enc = "projr (snd (Encoder_init example_env ?cfg))"
  let ?ls = "map (\<lambda>l. l\<lparr>l_fn := (\<lambda>x idx. 1)\<rparr>) (conv_layers ?enc)"
  have arch: "map layer_arch ?ls = map layer_arch (conv_layers ?enc)"
    by (simp add: layer_arch_def comp_def)
  have "\<exists>out. forward_vit ?enc ?img ?msg = Inr out"
    by (simp add: example_init_defs example_forward_defs Let_def upt_0_2)
  then obtain out where ok: "forward_vit ?enc ?img ?msg = Inr out" ..
  from forward_vit_ignores_trunk_weights [OF arch, of ?img ?msg] ok show ?thesis by blast
qed

end
